theory Spec2Isabelle
  imports Complex_Main "HOL-Library.Log_Nat"
begin

section \<open>JavaScript values\<close>

text \<open>
  The three client scripts (the JSON client at the top of \<^verbatim>\<open>common.js\<close>, the
  multipart client \<^verbatim>\<open>app-fixed.js\<close> in the second half of \<^verbatim>\<open>common.js\<close>, and
  \<^verbatim>\<open>app.js\<close> in \<^verbatim>\<open>unnamed/part_000\<close>) read the fields of a parsed JSON body.
  A parsed body is any JSON value; \<open>Undefined\<close> is the result of reading a property that
  an object does not have.

  Strings are byte strings (UTF-8). A number is an IEEE-754 double: NaN, one of the two
  infinities, or a finite double, which is the rational it denotes. The two zeros are
  the one rational 0: no script tells them apart (both are falsy, both print as
  \<^verbatim>\<open>0\<close>, and \<^verbatim>\<open>toFixed\<close> gives \<^verbatim>\<open>0.0\<close> for both).
\<close>

datatype number = NaN | PosInf | NegInf | Fin rat

datatype jsval =
    Undefined
  | Null
  | Bool bool
  | Num number
  | Str string
  | Arr "jsval list"
  | Obj "(string \<times> jsval) list"

datatype exn = TypeError | SyntaxError | NetworkError

text \<open>
  Three conversions of the ECMAScript runtime that the model does not define are taken
  as parameters: \<open>StringToNumber\<close> (the numeric value of a string),
  \<open>NumberToString_other\<close> (the text of a finite number that is not an integer of
  absolute value at most \<open>2^53\<close>) and \<open>toUpperCase_other\<close> (the upper case of a string
  that is not all ASCII).
\<close>

record runtime =
  StringToNumber :: "string \<Rightarrow> number"
  NumberToString_other :: "rat \<Rightarrow> string"
  toUpperCase_other :: "string \<Rightarrow> string"

text \<open>
  Property read \<^verbatim>\<open>v.k\<close> on a value that is not \<^verbatim>\<open>null\<close> or \<^verbatim>\<open>undefined\<close>. On
  those two the read throws a TypeError: every function below tests \<open>nullish\<close> where the
  script reads the first property of a parsed body. The read is used with the property
  names of the scripts only, none of which is a built-in property of a string, number,
  boolean or array, so the read of a primitive or array gives \<^verbatim>\<open>undefined\<close>.
\<close>

definition field :: "jsval \<Rightarrow> string \<Rightarrow> jsval" where
  "field v k =
     (case v of
        Obj kvs \<Rightarrow> (case map_of kvs k of None \<Rightarrow> Undefined | Some x \<Rightarrow> x)
      | _ \<Rightarrow> Undefined)"

definition nullish :: "jsval \<Rightarrow> bool" where
  "nullish v = (v = Undefined \<or> v = Null)"

fun truthy :: "jsval \<Rightarrow> bool" where
  "truthy Undefined = False"
| "truthy Null = False"
| "truthy (Bool b) = b"
| "truthy (Num n) = (n \<noteq> NaN \<and> n \<noteq> Fin 0)"
| "truthy (Str s) = (s \<noteq> [])"
| "truthy (Arr xs) = True"
| "truthy (Obj kvs) = True"

text \<open>The operators \<^verbatim>\<open>a || b\<close> and \<^verbatim>\<open>a ?? b\<close>.\<close>

definition js_or :: "jsval \<Rightarrow> jsval \<Rightarrow> jsval" where
  "js_or a b = (if truthy a then a else b)"

definition js_coalesce :: "jsval \<Rightarrow> jsval \<Rightarrow> jsval" where
  "js_coalesce a b = (if nullish a then b else a)"

subsection \<open>Numbers and their text\<close>

definition digit :: "nat \<Rightarrow> char" where
  "digit d = ''0123456789'' ! d"

function nat_str :: "nat \<Rightarrow> string" where
  "nat_str n = (if n < 10 then [digit n] else nat_str (n div 10) @ [digit (n mod 10)])"
  by pat_completeness auto
termination
  by (relation "measure id") auto

declare nat_str.simps [simp del]

definition int_str :: "int \<Rightarrow> string" where
  "int_str i = (if i < 0 then CHR ''-'' # nat_str (nat (- i)) else nat_str (nat i))"

definition is_integer :: "rat \<Rightarrow> bool" where
  "is_integer r = (r = of_int \<lfloor>r\<rfloor>)"

text \<open>
  \<^verbatim>\<open>String(n)\<close> for a number \<open>n\<close>. Every integer of absolute value at most \<open>2^53\<close> is a
  double and prints as its decimal digits; the text of any other finite number is the
  shortest decimal that reads back as the same double and is left to the runtime.
\<close>

definition Number_toString :: "runtime \<Rightarrow> number \<Rightarrow> string" where
  "Number_toString rt n =
     (case n of
        NaN \<Rightarrow> ''NaN''
      | PosInf \<Rightarrow> ''Infinity''
      | NegInf \<Rightarrow> ''-Infinity''
      | Fin r \<Rightarrow>
          if is_integer r \<and> \<bar>r\<bar> \<le> 9007199254740992 then int_str \<lfloor>r\<rfloor>
          else NumberToString_other rt r)"

text \<open>
  Rounding a real to the nearest double, ties to the even significand, as every
  arithmetic operation of the language does with its exact result. \<open>ilog2 a\<close> is the
  exponent \<open>e\<close> with \<open>2^e \<le> a < 2^(e+1)\<close>; below \<open>2^-1022\<close> the doubles are spaced
  as at \<open>2^-1022\<close>; the significand has 53 bits, so the doubles around \<open>a\<close> are the
  multiples of the quantum \<open>2^(e-52)\<close>; a result of \<open>2^1024\<close> or more is an infinity.
  \<open>double_overflow\<close> is \<open>2^1024\<close>, written out.
\<close>

definition ilog2 :: "rat \<Rightarrow> int" where
  "ilog2 a = (if 1 \<le> a then bitlen \<lfloor>a\<rfloor> - 1 else - bitlen (\<lceil>1 / a\<rceil> - 1))"

definition round_half_even :: "rat \<Rightarrow> int" where
  "round_half_even x =
     (let f = \<lfloor>x\<rfloor>; d = x - of_int f
      in if d < 1 / 2 then f else if 1 / 2 < d then f + 1 else if even f then f else f + 1)"

definition fl_quantum :: "rat \<Rightarrow> rat" where
  "fl_quantum a = 2 powi (max (ilog2 a) (- 1022) - 52)"

definition fl_round :: "rat \<Rightarrow> rat \<Rightarrow> rat" where
  "fl_round a q = of_int (round_half_even (a / q)) * q"

definition double_overflow :: rat where
  "double_overflow =
     179769313486231590772930519078902473361797697894230657273430081157732675805500963132708477322407536021120113879871393357658789768814416622492847430639474124377767893424865485276302219601246094119453082952085005768838150682342462881473913110540827237163350510684586298239947245938479716304835356329624224137216"

definition fl_result :: "bool \<Rightarrow> rat \<Rightarrow> number" where
  "fl_result negative r =
     (if double_overflow \<le> r then (if negative then NegInf else PosInf)
      else Fin (if negative then - r else r))"

definition fl :: "rat \<Rightarrow> number" where
  "fl x = (if x = 0 then Fin 0 else fl_result (x < 0) (fl_round \<bar>x\<bar> (fl_quantum \<bar>x\<bar>)))"

text \<open>\<^verbatim>\<open>n * 100\<close>: the exact product, rounded to a double.\<close>

definition times100 :: "number \<Rightarrow> number" where
  "times100 n =
     (case n of
        NaN \<Rightarrow> NaN
      | PosInf \<Rightarrow> PosInf
      | NegInf \<Rightarrow> NegInf
      | Fin r \<Rightarrow> fl (r * 100))"

text \<open>
  \<^verbatim>\<open>Math.round\<close>: the nearest integer, a tie going up. The integer is a double: below
  \<open>2^52\<close> every integer is, and from there on the argument is an integer itself.
\<close>

definition Math_round :: "number \<Rightarrow> number" where
  "Math_round n =
     (case n of
        NaN \<Rightarrow> NaN
      | PosInf \<Rightarrow> PosInf
      | NegInf \<Rightarrow> NegInf
      | Fin r \<Rightarrow> Fin (of_int \<lfloor>r + 1 / 2\<rfloor>))"

text \<open>
  \<^verbatim>\<open>n.toFixed(1)\<close>: the sign, then the integer \<open>m\<close> nearest to \<open>10 * |n|\<close> (the larger
  one at a tie) written with one digit after the point; from \<open>10^21\<close> on, and for NaN
  and the infinities, the text of \<^verbatim>\<open>String(n)\<close>.
\<close>

definition toFixed1 :: "runtime \<Rightarrow> number \<Rightarrow> string" where
  "toFixed1 rt n =
     (case n of
        Fin r \<Rightarrow>
          (let s = (if r < 0 then ''-'' else []); x = \<bar>r\<bar> in
           if x \<ge> 10 ^ 21 then s @ Number_toString rt (Fin x)
           else (let m = nat \<lfloor>x * 10 + 1 / 2\<rfloor>
                 in s @ nat_str (m div 10) @ ''.'' @ [digit (m mod 10)]))
      | _ \<Rightarrow> Number_toString rt n)"

subsection \<open>Strings\<close>

fun join :: "string \<Rightarrow> string list \<Rightarrow> string" where
  "join sep [] = []"
| "join sep [x] = x"
| "join sep (x # y # ys) = x @ sep @ join sep (y # ys)"

text \<open>
  \<^verbatim>\<open>String(v)\<close>, which is also what a template literal and \<^verbatim>\<open>v.toString()\<close> do to a
  parsed JSON value, and the conversion to a number both go through the \<^verbatim>\<open>toString\<close>
  method of an object. A parsed object that has a key \<^verbatim>\<open>toString\<close> of its own hides the
  method behind a value that cannot be called, and the conversion throws a TypeError;
  so does the conversion of an array that holds such an object. \<open>convertible\<close> says that
  the conversion does not throw, \<open>ToString\<close> gives its text then. The list of an \<open>Obj\<close>
  holds the properties of the object, each key once.
\<close>

fun convertible :: "jsval \<Rightarrow> bool" where
  "convertible (Arr xs) = list_all convertible xs"
| "convertible (Obj kvs) = (map_of kvs ''toString'' = None)"
| "convertible v = True"

fun ToString :: "runtime \<Rightarrow> jsval \<Rightarrow> string" where
  "ToString rt Undefined = ''undefined''"
| "ToString rt Null = ''null''"
| "ToString rt (Bool b) = (if b then ''true'' else ''false'')"
| "ToString rt (Num n) = Number_toString rt n"
| "ToString rt (Str s) = s"
| "ToString rt (Arr xs) =
     join '','' (map (\<lambda>x. if x = Undefined \<or> x = Null then [] else ToString rt x) xs)"
| "ToString rt (Obj kvs) = ''[object Object]''"

text \<open>The conversion to a number that \<^verbatim>\<open>v * 100\<close> applies to \<open>v\<close>.\<close>

definition ToNumber :: "runtime \<Rightarrow> jsval \<Rightarrow> number" where
  "ToNumber rt v =
     (case v of
        Undefined \<Rightarrow> NaN
      | Null \<Rightarrow> Fin 0
      | Bool b \<Rightarrow> Fin (if b then 1 else 0)
      | Num n \<Rightarrow> n
      | Str s \<Rightarrow> StringToNumber rt s
      | _ \<Rightarrow> StringToNumber rt (ToString rt v))"

text \<open>
  \<^verbatim>\<open>s.toUpperCase()\<close>. On a string of ASCII characters it maps the letters \<^verbatim>\<open>a\<close> to
  \<^verbatim>\<open>z\<close> to \<^verbatim>\<open>A\<close> to \<^verbatim>\<open>Z\<close> and keeps every other character; the Unicode case
  mapping of any other string, which can change its length, is left to the runtime.
\<close>

definition ascii :: "char \<Rightarrow> bool" where
  "ascii c = ((of_char c :: nat) < 128)"

definition upper_char :: "char \<Rightarrow> char" where
  "upper_char c =
     (let n = (of_char c :: nat) in if 97 \<le> n \<and> n \<le> 122 then char_of (n - 32) else c)"

definition toUpperCase :: "runtime \<Rightarrow> string \<Rightarrow> string" where
  "toUpperCase rt s = (if list_all ascii s then map upper_char s else toUpperCase_other rt s)"

text \<open>
  The method call \<^verbatim>\<open>v.toUpperCase()\<close> on a value that is not \<^verbatim>\<open>null\<close> or
  \<^verbatim>\<open>undefined\<close>: only a string has the method.
\<close>

definition call_toUpperCase :: "runtime \<Rightarrow> jsval \<Rightarrow> exn + string" where
  "call_toUpperCase rt v = (case v of Str s \<Rightarrow> Inr (toUpperCase rt s) | _ \<Rightarrow> Inl TypeError)"

subsection \<open>escapeHtml\<close>

text \<open>
  \<^verbatim>\<open>String(s).replace(/[&<>"']/g, m => ({...}[m]))\<close>, the same in \<^verbatim>\<open>app-fixed.js\<close> and
  \<^verbatim>\<open>app.js\<close>. The model takes the string; a caller that passes another value applies
  \<open>ToString\<close> first.
\<close>

definition escape_char :: "char \<Rightarrow> string" where
  \<open>escape_char m =
     (if m = CHR ''&'' then ''&amp;''
      else if m = CHR ''<'' then ''&lt;''
      else if m = CHR ''>'' then ''&gt;''
      else if m = CHR ''"'' then ''&quot;''
      else if m = CHR 0x27 then ''&#39;''
      else [m])\<close>

definition escapeHtml :: "string \<Rightarrow> string" where
  "escapeHtml s = concat (map escape_char s)"

section \<open>The page\<close>

text \<open>
  The elements the scripts hold (\<^verbatim>\<open>video\<close>, \<^verbatim>\<open>startBtn\<close>, \<^verbatim>\<open>previewImg\<close>,
  \<^verbatim>\<open>resultBox\<close>, \<^verbatim>\<open>recentList\<close>, \<^verbatim>\<open>modelStatus\<close>) and what the scripts do to
  the world outside the document: the alerts shown, the \<^verbatim>\<open>console.error\<close> calls, the
  HTTP requests issued and the frames drawn on a canvas, each in order of occurrence.
  An assignment to \<^verbatim>\<open>innerText\<close> and one to \<^verbatim>\<open>innerHTML\<close> are kept apart; the markup
  assigned is kept as the script wrote it. A child of the recent list is either a
  \<^verbatim>\<open>div\<close> whose \<^verbatim>\<open>innerHTML\<close> was assigned, or a \<^verbatim>\<open>div\<close> holding an image (its
  \<^verbatim>\<open>src\<close> property) and an info \<^verbatim>\<open>div\<close> (its \<^verbatim>\<open>innerHTML\<close>); style properties
  are left out. The recent list holds element children only.
\<close>

datatype content = InnerText string | InnerHTML string

datatype node = DivHtml string | DivThumb string string

datatype payload = JsonImage string string | FormImage string

datatype request = Request string string "payload option"

record page =
  video_srcObject :: "nat option"
  startBtn_disabled :: bool
  previewImg_src :: string
  resultBox :: content
  recentList :: "node list"
  modelStatus :: string
  alerts :: "string list"
  console :: "string list"
  requests :: "request list"
  frames_drawn :: nat

text \<open>
  What \<^verbatim>\<open>fetch\<close> resolves to: the status, the body as \<^verbatim>\<open>resp.text()\<close> gives it
  (\<open>None\<close> when reading the body fails) and the value \<^verbatim>\<open>resp.json()\<close> gives (\<open>None\<close>
  when it rejects). A rejected \<^verbatim>\<open>fetch\<close> is \<open>None\<close> of type \<open>response option\<close>.
\<close>

record response =
  status :: nat
  body_text :: "string option"
  body_json :: "jsval option"

definition ok :: "response \<Rightarrow> bool" where
  "ok resp = (200 \<le> status resp \<and> status resp \<le> 299)"

text \<open>
  How an event handler ends: it returns, or an exception leaves it. Both carry the page
  as the handler left it.
\<close>

datatype completion = Returned page | Uncaught exn page

fun final :: "completion \<Rightarrow> page" where
  "final (Returned s) = s"
| "final (Uncaught e s) = s"

text \<open>
  \<^verbatim>\<open>while (recentList.children.length > 10) recentList.removeChild(recentList.lastChild)\<close>
\<close>

function evict :: "node list \<Rightarrow> node list" where
  "evict children = (if length children > 10 then evict (butlast children) else children)"
  by pat_completeness auto
termination
  by (relation "measure length") auto

declare evict.simps [simp del]

section \<open>app.js (the file unnamed/part 000)\<close>

definition BACKEND_BASE_app :: string where
  "BACKEND_BASE_app = ''https://face-spoofing-attack-detector-for-facial.onrender.com''"

definition DETECT_ENDPOINT_app :: string where
  "DETECT_ENDPOINT_app = BACKEND_BASE_app @ ''/api/detect''"

definition startBtn_onclick_app :: "nat option \<Rightarrow> page \<Rightarrow> completion" where
  "startBtn_onclick_app getUserMedia s =
     (case getUserMedia of
        Some stream \<Rightarrow>
          Returned (s\<lparr>video_srcObject := Some stream, startBtn_disabled := True,
                      resultBox := InnerText ''Camera started.''\<rparr>)
      | None \<Rightarrow>
          Returned (s\<lparr>alerts := alerts s @ [''Camera access denied. Use HTTPS or allow permission.''],
                      console := console s @ [''err'']\<rparr>))"

definition recent_html_app :: "string \<Rightarrow> string \<Rightarrow> string \<Rightarrow> string" where
  \<open>recent_html_app imgSrc label conf =
     ''\<newline>    <img src="'' @ imgSrc @ ''" width="80" style="border-radius:6px"/>'' @
     ''\<newline>    <div>'' @
     ''\<newline>      <div><b>'' @ label @ ''</b></div>'' @
     ''\<newline>      <div style="font-size:12px">'' @ conf @ ''%</div>'' @
     ''\<newline>    </div>'' @
     ''\<newline>  ''\<close>

definition appendRecent_app :: "runtime \<Rightarrow> string \<Rightarrow> number \<Rightarrow> string \<Rightarrow> page \<Rightarrow> page" where
  "appendRecent_app rt label conf imgSrc s =
     s\<lparr>recentList :=
         evict (DivHtml (recent_html_app imgSrc label (Number_toString rt conf)) # recentList s)\<rparr>"

definition result_html_app :: "string \<Rightarrow> string \<Rightarrow> string \<Rightarrow> string" where
  \<open>result_html_app label conf time =
     ''\<newline>      <div><b>Prediction:</b> '' @ label @ ''</div>'' @
     ''\<newline>      <div><b>Confidence:</b> '' @ conf @ ''%</div>'' @
     ''\<newline>      <div><b>Time:</b> '' @ time @ '' ms</div>'' @
     ''\<newline>    ''\<close>

definition error_html_app :: "string \<Rightarrow> string" where
  \<open>error_html_app text =
     ''<span style="color:red">Server error:</span><pre>'' @ escapeHtml text @ ''</pre>''\<close>

text \<open>\<^verbatim>\<open>const conf = Math.round((result.confidence || 0) * 100)\<close>\<close>

definition conf_app :: "runtime \<Rightarrow> jsval \<Rightarrow> number" where
  "conf_app rt confidence = Math_round (times100 (ToNumber rt (js_or confidence (Num (Fin 0)))))"

text \<open>
  \<^verbatim>\<open>result.prediction || "unknown"\<close>, the value whose \<^verbatim>\<open>toUpperCase\<close> is called, and
  \<^verbatim>\<open>const time = result.processing_time_ms ?? "N/A"\<close>
\<close>

definition label_app :: "jsval \<Rightarrow> jsval" where
  "label_app result = js_or (field result ''prediction'') (Str ''unknown'')"

definition time_app :: "jsval \<Rightarrow> jsval" where
  "time_app result = js_coalesce (field result ''processing_time_ms'') (Str ''N/A'')"

text \<open>
  The body of the \<^verbatim>\<open>try\<close> of \<^verbatim>\<open>sendToBackend\<close>, after the request has gone out.
  Nothing of the page is written before the last point that can throw.
\<close>

definition sendToBackend_app_try :: "runtime \<Rightarrow> response option \<Rightarrow> page \<Rightarrow> exn + page" where
  "sendToBackend_app_try rt fetched s =
     (case fetched of
        None \<Rightarrow> Inl NetworkError
      | Some resp \<Rightarrow>
          if \<not> ok resp then
            (case body_text resp of
               None \<Rightarrow> Inl NetworkError
             | Some text \<Rightarrow> Inr (s\<lparr>resultBox := InnerHTML (error_html_app text)\<rparr>))
          else
            (case body_json resp of
               None \<Rightarrow> Inl SyntaxError
             | Some result \<Rightarrow>
                 if nullish result then Inl TypeError
                 else
                   (case call_toUpperCase rt (label_app result) of
                      Inl e \<Rightarrow> Inl e
                    | Inr label \<Rightarrow>
                        (let confidence = field result ''confidence'';
                             time = time_app result
                         in if \<not> convertible (js_or confidence (Num (Fin 0))) \<or> \<not> convertible time
                            then Inl TypeError
                            else
                              (let conf = conf_app rt confidence;
                                   s1 = s\<lparr>resultBox := InnerHTML
                                          (result_html_app label (Number_toString rt conf)
                                             (ToString rt time))\<rparr>
                               in Inr (appendRecent_app rt label conf (previewImg_src s1) s1))))))"

definition sendToBackend_app :: "runtime \<Rightarrow> response option \<Rightarrow> string \<Rightarrow> page \<Rightarrow> page" where
  "sendToBackend_app rt fetched blob s =
     (let s0 = s\<lparr>requests := requests s @ [Request ''POST'' DETECT_ENDPOINT_app (Some (FormImage blob))]\<rparr>
      in case sendToBackend_app_try rt fetched s0 of
           Inr s1 \<Rightarrow> s1
         | Inl err \<Rightarrow>
             s0\<lparr>console := console s0 @ [''err''],
                resultBox := InnerText ''Network error. Backend unreachable.''\<rparr>)"

text \<open>
  \<^verbatim>\<open>snapBtn.onclick\<close>. \<open>toBlob\<close> is what \<^verbatim>\<open>canvas.toBlob\<close> hands to its callback
  (\<^verbatim>\<open>null\<close> as \<open>None\<close>, on which \<^verbatim>\<open>URL.createObjectURL\<close> throws), \<open>objectURL\<close> the URL
  made for the blob.
\<close>

definition snapBtn_onclick_app ::
  "runtime \<Rightarrow> string option \<Rightarrow> string \<Rightarrow> response option \<Rightarrow> page \<Rightarrow> completion" where
  "snapBtn_onclick_app rt toBlob objectURL fetched s =
     (if video_srcObject s = None then
        Returned (s\<lparr>resultBox := InnerText ''Start the camera first.''\<rparr>)
      else
        (let s1 = s\<lparr>frames_drawn := frames_drawn s + 1\<rparr> in
         case toBlob of
           None \<Rightarrow> Uncaught TypeError s1
         | Some blob \<Rightarrow>
             Returned (sendToBackend_app rt fetched blob
               (s1\<lparr>previewImg_src := objectURL, resultBox := InnerText ''Analyzing...''\<rparr>))))"

section \<open>app-fixed.js (second half of common.js)\<close>

definition BACKEND_BASE_fixed :: string where
  "BACKEND_BASE_fixed = ''http://127.0.0.1:5000''"

definition DETECT_ENDPOINT_fixed :: string where
  "DETECT_ENDPOINT_fixed = BACKEND_BASE_fixed @ ''/api/detect''"

definition startBtn_onclick_fixed :: "nat option \<Rightarrow> page \<Rightarrow> completion" where
  "startBtn_onclick_fixed getUserMedia s =
     (case getUserMedia of
        Some stream \<Rightarrow>
          Returned (s\<lparr>video_srcObject := Some stream, startBtn_disabled := True,
                      resultBox := InnerText ''Camera started.''\<rparr>)
      | None \<Rightarrow>
          Returned (s\<lparr>alerts := alerts s @
                        [''Camera access denied or unavailable. Check permissions or use HTTPS/localhost.''],
                      console := console s @ [''err'']\<rparr>))"

text \<open>The object literal \<^verbatim>\<open>{ label, confidence, timestamp }\<close> handed to \<^verbatim>\<open>appendRecent\<close>.\<close>

record recent_item =
  item_label :: string
  item_confidence :: number
  item_timestamp :: string

definition recent_html_fixed :: "string \<Rightarrow> string \<Rightarrow> string \<Rightarrow> string" where
  \<open>recent_html_fixed label timestamp conf =
     ''\<newline>    <div style="font-weight:700">'' @ label @ ''</div>'' @
     ''\<newline>    <div style="font-size:12px;color:#777">'' @ timestamp @ ''</div>'' @
     ''\<newline>    <div style="font-size:12px;color:#777">conf '' @ conf @ ''%</div>'' @
     ''\<newline>  ''\<close>

definition appendRecent_fixed :: "runtime \<Rightarrow> recent_item \<Rightarrow> string \<Rightarrow> page \<Rightarrow> page" where
  "appendRecent_fixed rt item imgSrc s =
     s\<lparr>recentList :=
         evict (DivThumb imgSrc
                  (recent_html_fixed (escapeHtml (toUpperCase rt (item_label item)))
                     (escapeHtml (item_timestamp item))
                     (toFixed1 rt (times100 (item_confidence item))))
                # recentList s)\<rparr>"

definition result_html_fixed :: "string \<Rightarrow> string \<Rightarrow> string \<Rightarrow> string" where
  \<open>result_html_fixed label confidence timeMs =
     ''\<newline>      <div><strong>Prediction:</strong> '' @ label @ ''</div>'' @
     ''\<newline>      <div><strong>Confidence:</strong> '' @ confidence @ ''</div>'' @
     ''\<newline>      <div><strong>Processing time:</strong> '' @ timeMs @ '' ms</div>'' @
     ''\<newline>    ''\<close>

definition server_error_html_fixed :: "nat \<Rightarrow> string \<Rightarrow> string" where
  \<open>server_error_html_fixed st text =
     ''<span style="color:red">Server error '' @ nat_str st @
     '':</span><pre style="white-space:pre-wrap">'' @ escapeHtml text @ ''</pre>''\<close>

definition error_field_html_fixed :: "string \<Rightarrow> string" where
  \<open>error_field_html_fixed msg = ''<span style="color:red">'' @ escapeHtml msg @ ''</span>''\<close>

text \<open>
  \<^verbatim>\<open>(typeof result.confidence === "number") ? (result.confidence * 100).toFixed(1) + "%"
     : (result.confidence || "N/A")\<close>
\<close>

definition confidence_fixed :: "runtime \<Rightarrow> jsval \<Rightarrow> jsval" where
  "confidence_fixed rt confidence =
     (case confidence of
        Num c \<Rightarrow> Str (toFixed1 rt (times100 c) @ ''%'')
      | _ \<Rightarrow> js_or confidence (Str ''N/A''))"

text \<open>
  \<^verbatim>\<open>result.prediction || result.label || "unknown"\<close>, the value whose \<^verbatim>\<open>toString\<close> is
  called, and \<^verbatim>\<open>result.processing_time_ms ?? result.processing_time ?? "N/A"\<close>
\<close>

definition label_fixed :: "jsval \<Rightarrow> jsval" where
  "label_fixed result =
     js_or (js_or (field result ''prediction'') (field result ''label'')) (Str ''unknown'')"

definition timeMs_fixed :: "jsval \<Rightarrow> jsval" where
  "timeMs_fixed result =
     js_coalesce (js_coalesce (field result ''processing_time_ms'') (field result ''processing_time''))
       (Str ''N/A'')"

text \<open>
  The body of the \<^verbatim>\<open>try\<close> of \<^verbatim>\<open>sendToBackend\<close>, after the request has gone out;
  \<open>now\<close> is \<^verbatim>\<open>new Date().toLocaleString()\<close>.
\<close>

definition sendToBackend_fixed_try ::
  "runtime \<Rightarrow> response option \<Rightarrow> string \<Rightarrow> page \<Rightarrow> exn + page" where
  "sendToBackend_fixed_try rt fetched now s =
     (case fetched of
        None \<Rightarrow> Inl NetworkError
      | Some resp \<Rightarrow>
          if \<not> ok resp then
            (case body_text resp of
               None \<Rightarrow> Inl NetworkError
             | Some text \<Rightarrow>
                 Inr (s\<lparr>console := console s @ [''Server error body:''],
                        resultBox := InnerHTML (server_error_html_fixed (status resp) text)\<rparr>))
          else
            (case body_json resp of
               None \<Rightarrow> Inl SyntaxError
             | Some result \<Rightarrow>
                 if nullish result then Inl TypeError
                 else if truthy (field result ''error'') then
                   (if \<not> convertible (field result ''error'') then Inl TypeError
                    else Inr (s\<lparr>resultBox := InnerHTML
                                (error_field_html_fixed (ToString rt (field result ''error'')))\<rparr>))
                 else
                   (let labelv = label_fixed result;
                        confidence = confidence_fixed rt (field result ''confidence'');
                        timeMs = timeMs_fixed result
                    in if \<not> convertible labelv \<or> \<not> convertible confidence \<or> \<not> convertible timeMs
                       then Inl TypeError
                       else
                         (let label = ToString rt labelv;
                              s1 = s\<lparr>resultBox := InnerHTML
                                     (result_html_fixed (escapeHtml (toUpperCase rt label))
                                        (escapeHtml (ToString rt confidence))
                                        (escapeHtml (ToString rt timeMs)))\<rparr>
                          in Inr (appendRecent_fixed rt
                                    \<lparr>item_label = label,
                                     item_confidence =
                                       (case field result ''confidence'' of
                                          Num c \<Rightarrow> c
                                        | _ \<Rightarrow> Fin 0),
                                     item_timestamp = now\<rparr>
                                    (previewImg_src s1) s1)))))"

definition sendToBackend_fixed ::
  "runtime \<Rightarrow> response option \<Rightarrow> string \<Rightarrow> string \<Rightarrow> page \<Rightarrow> page" where
  "sendToBackend_fixed rt fetched now fileBlob s =
     (let s0 = s\<lparr>requests := requests s @
                  [Request ''POST'' DETECT_ENDPOINT_fixed (Some (FormImage fileBlob))]\<rparr>
      in case sendToBackend_fixed_try rt fetched now s0 of
           Inr s1 \<Rightarrow> s1
         | Inl err \<Rightarrow>
             s0\<lparr>console := console s0 @ [''Network / parse error:''],
                resultBox := InnerText ''Detection failed. Is backend running? See console for details.''\<rparr>)"

definition snapBtn_onclick_fixed ::
  "runtime \<Rightarrow> string option \<Rightarrow> string \<Rightarrow> response option \<Rightarrow> string \<Rightarrow> page \<Rightarrow> completion" where
  "snapBtn_onclick_fixed rt toBlob objectURL fetched now s =
     (if video_srcObject s = None then
        Returned (s\<lparr>resultBox := InnerText ''Start the camera first.''\<rparr>)
      else
        (let s1 = s\<lparr>frames_drawn := frames_drawn s + 1\<rparr> in
         case toBlob of
           None \<Rightarrow> Uncaught TypeError s1
         | Some blob \<Rightarrow>
             Returned (sendToBackend_fixed rt fetched now blob
               (s1\<lparr>previewImg_src := objectURL, resultBox := InnerText ''Analyzing...''\<rparr>))))"

section \<open>The JSON client (first half of common.js)\<close>

text \<open>
  \<^verbatim>\<open>pingModel\<close>: one \<^verbatim>\<open>fetch\<close> of the ping endpoint, then
  \<^verbatim>\<open>`${j.model_name || 'none'} (loaded=${j.model_loaded})`\<close>, and the fixed text in the
  \<^verbatim>\<open>catch\<close>.
\<close>

definition pingModel_try :: "runtime \<Rightarrow> response option \<Rightarrow> exn + string" where
  "pingModel_try rt fetched =
     (case fetched of
        None \<Rightarrow> Inl NetworkError
      | Some r \<Rightarrow>
          (case body_json r of
             None \<Rightarrow> Inl SyntaxError
           | Some j \<Rightarrow>
               if nullish j then Inl TypeError
               else if \<not> convertible (js_or (field j ''model_name'') (Str ''none'')) \<or>
                       \<not> convertible (field j ''model_loaded'')
               then Inl TypeError
               else Inr (ToString rt (js_or (field j ''model_name'') (Str ''none'')) @
                         '' (loaded='' @ ToString rt (field j ''model_loaded'') @ '')'')))"

definition pingModel :: "runtime \<Rightarrow> response option \<Rightarrow> page \<Rightarrow> page" where
  "pingModel rt fetched s =
     (let s0 = s\<lparr>requests := requests s @ [Request ''GET'' ''http://127.0.0.1:5000/api/ping'' None]\<rparr>
      in case pingModel_try rt fetched of
           Inr text \<Rightarrow> s0\<lparr>modelStatus := text\<rparr>
         | Inl e \<Rightarrow> s0\<lparr>modelStatus := ''backend unreachable''\<rparr>)"

definition startBtn_onclick_legacy :: "nat option \<Rightarrow> page \<Rightarrow> completion" where
  "startBtn_onclick_legacy getUserMedia s =
     (case getUserMedia of
        Some stream \<Rightarrow> Returned (s\<lparr>video_srcObject := Some stream, startBtn_disabled := True\<rparr>)
      | None \<Rightarrow> Returned (s\<lparr>alerts := alerts s @ [''Camera access denied or unavailable.'']\<rparr>))"

text \<open>\<^verbatim>\<open>s.split(c)\<close>; the list it gives is never empty.\<close>

fun split :: "char \<Rightarrow> string \<Rightarrow> string list" where
  "split c [] = [[]]"
| "split c (x # xs) =
     (if x = c then [] # split c xs
      else (case split c xs of [] \<Rightarrow> [[x]] | w # ws \<Rightarrow> (x # w) # ws))"

text \<open>The bullet of the template, U+2022, in UTF-8.\<close>

definition bullet :: string where
  "bullet = [CHR 0xE2, CHR 0x80, CHR 0xA2]"

definition recent_html_legacy ::
  "string \<Rightarrow> string \<Rightarrow> string \<Rightarrow> string \<Rightarrow> string \<Rightarrow> string" where
  \<open>recent_html_legacy prediction attack_type timestamp conf ptm =
     ''\<newline>    <div style="font-weight:700">'' @ prediction @ '' '' @ bullet @ '' '' @
       attack_type @ ''</div>'' @
     ''\<newline>    <div style="color:#777;font-size:12px">'' @ timestamp @ ''</div>'' @
     ''\<newline>    <div style="font-size:12px;color:#777">conf '' @ conf @ ''% '' @ bullet @ '' '' @
       ptm @ '' ms</div>''\<close>

text \<open>\<^verbatim>\<open>Math.round(data.confidence * 100)\<close>\<close>

definition conf_legacy :: "runtime \<Rightarrow> jsval \<Rightarrow> number" where
  "conf_legacy rt confidence = Math_round (times100 (ToNumber rt confidence))"

text \<open>
  \<^verbatim>\<open>item.image_path ? `http://127.0.0.1:5000/uploads/${item.image_path.split('/').pop()}`
     : previewImg.src\<close>; only a string has the method \<^verbatim>\<open>split\<close>.
\<close>

definition img_src_legacy :: "jsval \<Rightarrow> string \<Rightarrow> exn + string" where
  "img_src_legacy image_path preview =
     (if truthy image_path then
        (case image_path of
           Str p \<Rightarrow> Inr (''http://127.0.0.1:5000/uploads/'' @ last (split CHR ''/'' p))
         | _ \<Rightarrow> Inl TypeError)
      else Inr preview)"

text \<open>
  \<^verbatim>\<open>appendRecent(item)\<close> of the JSON client: the image source, the info markup, then
  \<^verbatim>\<open>r.prepend(d)\<close>; there is no loop after it. It throws before it touches the list
  when \<open>item\<close> is \<^verbatim>\<open>null\<close>, when \<^verbatim>\<open>item.image_path\<close> is truthy and not a string,
  when \<^verbatim>\<open>item.prediction\<close> is not a string, or when an interpolated field cannot be
  converted.
\<close>

definition appendRecent_legacy :: "runtime \<Rightarrow> jsval \<Rightarrow> page \<Rightarrow> exn + page" where
  "appendRecent_legacy rt item s =
     (if nullish item then Inl TypeError
      else
        (case img_src_legacy (field item ''image_path'') (previewImg_src s) of
           Inl e \<Rightarrow> Inl e
         | Inr src \<Rightarrow>
             (case call_toUpperCase rt (field item ''prediction'') of
                Inl e \<Rightarrow> Inl e
              | Inr up \<Rightarrow>
                  if \<not> list_all convertible
                         [field item ''attack_type'', field item ''timestamp'',
                          field item ''confidence'', field item ''processing_time_ms'']
                  then Inl TypeError
                  else
                  Inr (s\<lparr>recentList :=
                         DivThumb src
                           (recent_html_legacy up
                              (ToString rt (field item ''attack_type''))
                              (ToString rt (field item ''timestamp''))
                              (Number_toString rt (conf_legacy rt (field item ''confidence'')))
                              (ToString rt (field item ''processing_time_ms'')))
                         # recentList s\<rparr>))))"

definition result_html_legacy :: "string \<Rightarrow> string \<Rightarrow> string \<Rightarrow> string \<Rightarrow> string" where
  \<open>result_html_legacy prediction attack_type conf ptm =
     ''\<newline>      <div><strong>Result:</strong> '' @ prediction @ '' ('' @ attack_type @ '')</div>'' @
     ''\<newline>      <div><strong>Confidence:</strong> '' @ conf @ ''%</div>'' @
     ''\<newline>      <div><strong>Time:</strong> '' @ ptm @ '' ms</div>''\<close>

text \<open>
  The body of the \<^verbatim>\<open>try\<close> of \<^verbatim>\<open>autoDetect\<close>, after the request has gone out. The
  status of the response is not read. The result box is written before
  \<^verbatim>\<open>appendRecent\<close> runs; when that throws, the \<^verbatim>\<open>catch\<close> overwrites the box.
\<close>

definition autoDetect_try :: "runtime \<Rightarrow> response option \<Rightarrow> page \<Rightarrow> exn + page" where
  "autoDetect_try rt fetched s =
     (case fetched of
        None \<Rightarrow> Inl NetworkError
      | Some resp \<Rightarrow>
          (case body_json resp of
             None \<Rightarrow> Inl SyntaxError
           | Some data \<Rightarrow>
               if nullish data then Inl TypeError
               else
                 (case call_toUpperCase rt (field data ''prediction'') of
                    Inl e \<Rightarrow> Inl e
                  | Inr up \<Rightarrow>
                      if \<not> list_all convertible
                             [field data ''attack_type'', field data ''confidence'',
                              field data ''processing_time_ms'']
                      then Inl TypeError
                      else
                      appendRecent_legacy rt data
                        (s\<lparr>resultBox := InnerHTML
                             (result_html_legacy up
                                (ToString rt (field data ''attack_type''))
                                (Number_toString rt (conf_legacy rt (field data ''confidence'')))
                                (ToString rt (field data ''processing_time_ms'')))\<rparr>))))"

definition autoDetect :: "runtime \<Rightarrow> response option \<Rightarrow> string \<Rightarrow> string \<Rightarrow> page \<Rightarrow> page" where
  "autoDetect rt fetched src sourceType s =
     (let s0 = s\<lparr>requests := requests s @
                  [Request ''POST'' ''http://127.0.0.1:5000/api/detect'' (Some (JsonImage src sourceType))]\<rparr>
      in case autoDetect_try rt fetched s0 of
           Inr s1 \<Rightarrow> s1
         | Inl err \<Rightarrow> s0\<lparr>resultBox := InnerHTML ''Detection failed. Is backend running?''\<rparr>)"

text \<open>
  \<^verbatim>\<open>snapBtn.onclick\<close> of the JSON client; \<open>dataURL\<close> is what \<^verbatim>\<open>canvas.toDataURL\<close>
  returns. \<^verbatim>\<open>video.srcObject\<close> is not read.
\<close>

definition snapBtn_onclick_legacy :: "runtime \<Rightarrow> string \<Rightarrow> response option \<Rightarrow> page \<Rightarrow> completion" where
  "snapBtn_onclick_legacy rt dataURL fetched s =
     Returned (autoDetect rt fetched dataURL ''camera''
       (s\<lparr>frames_drawn := frames_drawn s + 1, previewImg_src := dataURL,
          resultBox := InnerHTML ''Analyzing...''\<rparr>))"

text \<open>
  \<^verbatim>\<open>uploadInput.onchange\<close> of the JSON client. With no file chosen
  \<^verbatim>\<open>reader.readAsDataURL(undefined)\<close> throws; a read that fails never calls
  \<^verbatim>\<open>reader.onload\<close>; a read that succeeds calls it with the data URL.
\<close>

datatype upload = NoFile | ReadFailed | Loaded string

definition uploadInput_onchange_legacy ::
  "runtime \<Rightarrow> upload \<Rightarrow> response option \<Rightarrow> page \<Rightarrow> completion" where
  "uploadInput_onchange_legacy rt file fetched s =
     (case file of
        NoFile \<Rightarrow> Uncaught TypeError s
      | ReadFailed \<Rightarrow> Returned s
      | Loaded result \<Rightarrow>
          Returned (autoDetect rt fetched result ''upload''
            (s\<lparr>previewImg_src := result, resultBox := InnerHTML ''Analyzing...''\<rparr>)))"

text \<open>
  The loader at the end of the JSON client: \<^verbatim>\<open>j.rows.forEach(r => appendRecent(r))\<close>
  inside a \<^verbatim>\<open>try\<close> with an empty \<^verbatim>\<open>catch\<close>. A row on which \<^verbatim>\<open>appendRecent\<close> throws
  ends the loop; the rows before it stay in the list.
\<close>

fun forEach_appendRecent :: "runtime \<Rightarrow> jsval list \<Rightarrow> page \<Rightarrow> page" where
  "forEach_appendRecent rt [] s = s"
| "forEach_appendRecent rt (r # rows) s =
     (case appendRecent_legacy rt r s of
        Inl e \<Rightarrow> s
      | Inr s1 \<Rightarrow> forEach_appendRecent rt rows s1)"

definition load_recent :: "runtime \<Rightarrow> response option \<Rightarrow> page \<Rightarrow> page" where
  "load_recent rt fetched s =
     (let s0 = s\<lparr>requests := requests s @
                  [Request ''GET'' ''http://127.0.0.1:5000/api/logs?limit=10'' None]\<rparr>
      in case fetched of
           None \<Rightarrow> s0
         | Some logs \<Rightarrow>
             (case body_json logs of
                None \<Rightarrow> s0
              | Some j \<Rightarrow>
                  if nullish j then s0
                  else (case field j ''rows'' of
                          Arr rs \<Rightarrow> forEach_appendRecent rt rs s0
                        | _ \<Rightarrow> s0)))"

text \<open>
  What the JSON client runs when the script is loaded: \<^verbatim>\<open>pingModel()\<close>, then the
  loader. Each is given the outcome of its own \<^verbatim>\<open>fetch\<close>.
\<close>

definition page_load :: "runtime \<Rightarrow> response option \<Rightarrow> response option \<Rightarrow> page \<Rightarrow> page" where
  "page_load rt ping_fetched logs_fetched s =
     load_recent rt logs_fetched (pingModel rt ping_fetched s)"

text \<open>
  After the load the JSON client only runs its handlers (\<^verbatim>\<open>uploadBtn.onclick\<close> opens
  the file dialog and writes nothing). An execution is the load followed by any sequence
  of events, each with what the environment answers.
\<close>

datatype event =
    StartClick "nat option"
  | SnapClick string "response option"
  | UploadChange upload "response option"

fun handle :: "runtime \<Rightarrow> page \<Rightarrow> event \<Rightarrow> page" where
  "handle rt s (StartClick getUserMedia) = final (startBtn_onclick_legacy getUserMedia s)"
| "handle rt s (SnapClick dataURL fetched) = final (snapBtn_onclick_legacy rt dataURL fetched s)"
| "handle rt s (UploadChange file fetched) = final (uploadInput_onchange_legacy rt file fetched s)"

definition execution ::
  "runtime \<Rightarrow> response option \<Rightarrow> response option \<Rightarrow> event list \<Rightarrow> page \<Rightarrow> page" where
  "execution rt ping_fetched logs_fetched events s =
     foldl (handle rt) (page_load rt ping_fetched logs_fetched s) events"

definition ping_requests :: "page \<Rightarrow> request list" where
  "ping_requests s =
     filter (\<lambda>r. r = Request ''GET'' ''http://127.0.0.1:5000/api/ping'' None) (requests s)"

section \<open>Concrete inputs\<close>

text \<open>
  A runtime for the evaluations below, none of which converts a string to a number,
  prints a number other than a small integer or puts a string that is not ASCII in upper
  case; the page before any script has written to it;
  and a detection the backend answers with status 200.
\<close>

definition sample_runtime :: runtime where
  "sample_runtime =
     \<lparr>StringToNumber = (\<lambda>s. NaN), NumberToString_other = (\<lambda>r. []),
      toUpperCase_other = (\<lambda>s. s)\<rparr>"

definition initial_page :: page where
  "initial_page =
     \<lparr>video_srcObject = None, startBtn_disabled = False, previewImg_src = [],
      resultBox = InnerText [], recentList = [], modelStatus = [], alerts = [],
      console = [], requests = [], frames_drawn = 0\<rparr>"

definition sample_detection :: response where
  \<open>sample_detection =
     \<lparr>status = 200,
      body_text = Some ''{"prediction":"real","attack_type":"none","confidence":1,"processing_time_ms":5}'',
      body_json = Some (Obj [(''prediction'', Str ''real''), (''attack_type'', Str ''none''),
                             (''confidence'', Num (Fin 1)),
                             (''processing_time_ms'', Num (Fin 5))])\<rparr>\<close>

definition response_200 :: "string \<Rightarrow> jsval \<Rightarrow> response" where
  "response_200 text j = \<lparr>status = 200, body_text = Some text, body_json = Some j\<rparr>"

text \<open>An answer of the ping endpoint.\<close>

definition sample_ping :: response where
  \<open>sample_ping =
     response_200 ''{"model_name":"cnn","model_loaded":true}''
       (Obj [(''model_name'', Str ''cnn''), (''model_loaded'', Bool True)])\<close>

text \<open>A body that uses the second name of each field.\<close>

definition alternative_keys :: jsval where
  "alternative_keys =
     Obj [(''label'', Str ''real''), (''confidence'', Num (Fin 1)),
          (''processing_time'', Num (Fin 42))]"


text \<open>An answer of the ping endpoint with a server error status and a JSON body.\<close>

definition ping_500 :: response where
  \<open>ping_500 =
     \<lparr>status = 500, body_text = Some ''{"error":"Internal Server Error"}'',
      body_json = Some (Obj [(''error'', Str ''Internal Server Error'')])\<rparr>\<close>

section \<open>Rounding to a double\<close>

lemma double_overflow_eq: "double_overflow = 2 ^ 1024"
  by (simp add: double_overflow_def)







section \<open>The recent list\<close>

text \<open>The eviction loop keeps the first ten children.\<close>

lemma evict_take: "evict xs = take 10 xs"
proof (induction xs rule: evict.induct)
  case (1 children)
  show ?case
  proof (cases "length children > 10")
    case True
    then have "evict children = take 10 (butlast children)"
      using 1 by (simp add: evict.simps)
    also have "\<dots> = take 10 children"
      using True by (auto simp: butlast_conv_take min_def)
    finally show ?thesis .
  next
    case False
    then show ?thesis by (simp add: evict.simps)
  qed
qed

lemma appendRecent_app_recentList:
  "recentList (appendRecent_app rt label conf imgSrc s) =
     take 10 (DivHtml (recent_html_app imgSrc label (Number_toString rt conf)) # recentList s)"
  by (simp add: appendRecent_app_def evict_take)

lemma appendRecent_fixed_recentList:
  "recentList (appendRecent_fixed rt item imgSrc s) =
     take 10 (DivThumb imgSrc
                (recent_html_fixed (escapeHtml (toUpperCase rt (item_label item)))
                   (escapeHtml (item_timestamp item))
                   (toFixed1 rt (times100 (item_confidence item))))
              # recentList s)"
  by (simp add: appendRecent_fixed_def evict_take)

text \<open>
  In \<^verbatim>\<open>app.js\<close> and \<^verbatim>\<open>app-fixed.js\<close> the list has at most ten children after
  every \<^verbatim>\<open>appendRecent\<close>, whatever it held before, and the new child is the first.
\<close>

lemma appendRecent_bounded:
  "length (recentList (appendRecent_app rt label conf imgSrc s)) \<le> 10"
  "length (recentList (appendRecent_fixed rt item imgSrc' s)) \<le> 10"
  by (simp_all add: appendRecent_app_recentList appendRecent_fixed_recentList)

lemma appendRecent_newest_first:
  "recentList (appendRecent_app rt label conf imgSrc s) ! 0 =
     DivHtml (recent_html_app imgSrc label (Number_toString rt conf))"
  "recentList (appendRecent_fixed rt item imgSrc' s) ! 0 =
     DivThumb imgSrc'
       (recent_html_fixed (escapeHtml (toUpperCase rt (item_label item)))
          (escapeHtml (item_timestamp item))
          (toFixed1 rt (times100 (item_confidence item))))"
  by (simp_all add: appendRecent_app_recentList appendRecent_fixed_recentList)

text \<open>The \<^verbatim>\<open>appendRecent\<close> of the JSON client makes the list one longer each time.\<close>

lemma appendRecent_legacy_grows:
  "appendRecent_legacy rt item s = Inr s' \<Longrightarrow> length (recentList s') = Suc (length (recentList s))"
  by (auto simp: appendRecent_legacy_def split: if_splits sum.splits)

text \<open>
  C1: the recent list never exceeds 10 elements; an insertion that would make it longer
  evicts the oldest. The JSON client (\<^verbatim>\<open>common.js\<close>, lines 78 to 97) prepends and has no
  eviction loop: with ten entries in the list, one more successful detection leaves
  eleven.
\<close>

theorem appendRecent_legacy_eleven:
  "length (recentList
     (autoDetect sample_runtime (Some sample_detection) ''data:image/jpeg;base64,AAAA'' ''camera''
        (initial_page\<lparr>recentList := replicate 10 (DivThumb [] [])\<rparr>))) = 11"
  by code_simp

section \<open>A response with a status that is not a success\<close>

text \<open>
  \<^verbatim>\<open>app.js\<close> and \<^verbatim>\<open>app-fixed.js\<close> test \<^verbatim>\<open>resp.ok\<close> first: the body is read as
  text and shown escaped, and \<open>body_json\<close> is not read.
\<close>

lemma sendToBackend_app_not_ok:
  assumes "\<not> ok resp" and "body_text resp = Some text"
  shows "sendToBackend_app rt (Some resp) blob s =
           s\<lparr>requests := requests s @ [Request ''POST'' DETECT_ENDPOINT_app (Some (FormImage blob))],
             resultBox := InnerHTML (error_html_app text)\<rparr>"
  using assms by (simp add: sendToBackend_app_def sendToBackend_app_try_def)

lemma sendToBackend_fixed_not_ok:
  assumes "\<not> ok resp" and "body_text resp = Some text"
  shows "sendToBackend_fixed rt (Some resp) now blob s =
           s\<lparr>requests := requests s @ [Request ''POST'' DETECT_ENDPOINT_fixed (Some (FormImage blob))],
             console := console s @ [''Server error body:''],
             resultBox := InnerHTML (server_error_html_fixed (status resp) text)\<rparr>"
  using assms by (simp add: sendToBackend_fixed_def sendToBackend_fixed_try_def)

lemma not_ok_ignores_json:
  assumes "\<not> ok resp"
  shows "sendToBackend_app rt (Some (resp\<lparr>body_json := j\<rparr>)) blob s =
           sendToBackend_app rt (Some resp) blob s"
    and "sendToBackend_fixed rt (Some (resp\<lparr>body_json := j\<rparr>)) now blob s =
           sendToBackend_fixed rt (Some resp) now blob s"
proof -
  have "\<not> ok (resp\<lparr>body_json := j\<rparr>)"
    using assms by (simp add: ok_def)
  with assms show "sendToBackend_app rt (Some (resp\<lparr>body_json := j\<rparr>)) blob s =
           sendToBackend_app rt (Some resp) blob s"
    and "sendToBackend_fixed rt (Some (resp\<lparr>body_json := j\<rparr>)) now blob s =
           sendToBackend_fixed rt (Some resp) now blob s"
    by (simp_all add: sendToBackend_app_def sendToBackend_app_try_def sendToBackend_fixed_def
          sendToBackend_fixed_try_def Let_def split: option.splits)
qed

text \<open>
  C3: on a status that is not a success the client reads the body as text and shows that
  text, escaped, without parsing it as JSON. \<^verbatim>\<open>autoDetect\<close> of the JSON client
  (\<^verbatim>\<open>common.js\<close>, lines 59 to 75) never reads the status: it calls \<^verbatim>\<open>resp.json()\<close>, which
  rejects on the body \<^verbatim>\<open>Internal Server Error\<close>, and the \<^verbatim>\<open>catch\<close> shows its fixed
  text instead of the body.
\<close>

theorem autoDetect_server_error:
  "resultBox
     (autoDetect sample_runtime
        (Some \<lparr>status = 500, body_text = Some ''Internal Server Error'', body_json = None\<rparr>)
        ''data:image/jpeg;base64,AAAA'' ''camera'' initial_page)
   = InnerHTML ''Detection failed. Is backend running?''"
  by code_simp

section \<open>The snap button before the camera has started\<close>

lemma snapBtn_without_camera:
  assumes "video_srcObject s = None"
  shows "snapBtn_onclick_app rt toBlob objectURL fetched s =
           Returned (s\<lparr>resultBox := InnerText ''Start the camera first.''\<rparr>)"
    and "snapBtn_onclick_fixed rt toBlob objectURL fetched now s =
           Returned (s\<lparr>resultBox := InnerText ''Start the camera first.''\<rparr>)"
  using assms by (simp_all add: snapBtn_onclick_app_def snapBtn_onclick_fixed_def)

text \<open>
  C8: a snap while \<^verbatim>\<open>video.srcObject\<close> is unset shows \<^verbatim>\<open>Start the camera first.\<close>,
  captures no frame and sends no request. \<^verbatim>\<open>snapBtn.onclick\<close> of the JSON client
  (\<^verbatim>\<open>common.js\<close>, lines 34 to 43) has no such test: on the page as loaded it calls
  \<^verbatim>\<open>drawImage\<close>, sets the preview to the data URL of the empty canvas and sends the
  detection request (here \<^verbatim>\<open>fetch\<close> rejects).
\<close>

theorem snapBtn_legacy_without_camera:
  "snapBtn_onclick_legacy sample_runtime ''data:,'' None initial_page =
     Returned (initial_page
       \<lparr>frames_drawn := 1, previewImg_src := ''data:,'',
        requests := [Request ''POST'' ''http://127.0.0.1:5000/api/detect''
                       (Some (JsonImage ''data:,'' ''camera''))],
        resultBox := InnerHTML ''Detection failed. Is backend running?''\<rparr>)"
  by (simp add: snapBtn_onclick_legacy_def autoDetect_def autoDetect_try_def initial_page_def)

section \<open>The start button\<close>

text \<open>
  C7: when \<^verbatim>\<open>getUserMedia\<close> is denied or unavailable, each of the three
  \<^verbatim>\<open>startBtn.onclick\<close> handlers returns (no exception leaves it), shows exactly one
  alert and leaves \<^verbatim>\<open>startBtn.disabled\<close> and \<^verbatim>\<open>video.srcObject\<close> as they were; on any
  outcome the handler returns, and \<^verbatim>\<open>startBtn.disabled\<close> changes only when a stream was
  acquired.
\<close>

theorem camera_denied:
  assumes "h \<in> {startBtn_onclick_legacy, startBtn_onclick_fixed, startBtn_onclick_app}"
  shows "(\<exists>s' msg. h None s = Returned s' \<and> alerts s' = alerts s @ [msg] \<and>
            startBtn_disabled s' = startBtn_disabled s \<and>
            video_srcObject s' = video_srcObject s) \<and>
         (\<exists>s'. h getUserMedia s = Returned s' \<and>
            (startBtn_disabled s' \<noteq> startBtn_disabled s \<longrightarrow> getUserMedia \<noteq> None))"
  using assms
  by (auto simp: startBtn_onclick_legacy_def startBtn_onclick_fixed_def startBtn_onclick_app_def
           split: option.splits)

theorem camera_denied_witness:
  "startBtn_onclick_app \<in> {startBtn_onclick_legacy, startBtn_onclick_fixed, startBtn_onclick_app} \<and>
   (\<exists>s' msg. startBtn_onclick_app None initial_page = Returned s' \<and>
      alerts s' = alerts initial_page @ [msg] \<and>
      startBtn_disabled s' = startBtn_disabled initial_page \<and>
      video_srcObject s' = video_srcObject initial_page) \<and>
   (\<exists>s'. startBtn_onclick_app (Some 1) initial_page = Returned s' \<and>
      startBtn_disabled s' \<noteq> startBtn_disabled initial_page \<and> Some (1::nat) \<noteq> None)"
proof -
  have m: "startBtn_onclick_app \<in>
             {startBtn_onclick_legacy, startBtn_onclick_fixed, startBtn_onclick_app}"
    by simp
  have "startBtn_disabled (final (startBtn_onclick_app (Some 1) initial_page)) \<noteq>
          startBtn_disabled initial_page"
    by (simp add: startBtn_onclick_app_def initial_page_def)
  with camera_denied [OF m, of initial_page "Some 1"] m show ?thesis
    by auto
qed

section \<open>The status prober\<close>

text \<open>What each function of the JSON client adds to the requests.\<close>

lemma appendRecent_legacy_requests:
  "appendRecent_legacy rt item s = Inr s' \<Longrightarrow> requests s' = requests s"
  by (auto simp: appendRecent_legacy_def split: if_splits sum.splits)

lemma forEach_appendRecent_requests:
  "requests (forEach_appendRecent rt rows s) = requests s"
proof (induction rows arbitrary: s)
  case Nil
  then show ?case by simp
next
  case (Cons r rows)
  show ?case
  proof (cases "appendRecent_legacy rt r s")
    case (Inl e)
    then show ?thesis by simp
  next
    case (Inr s1)
    then show ?thesis using Cons.IH [of s1] appendRecent_legacy_requests [OF Inr] by simp
  qed
qed

lemma load_recent_requests:
  "requests (load_recent rt fetched s) =
     requests s @ [Request ''GET'' ''http://127.0.0.1:5000/api/logs?limit=10'' None]"
  by (simp add: load_recent_def Let_def forEach_appendRecent_requests
           split: option.splits jsval.splits)

lemma pingModel_requests:
  "requests (pingModel rt fetched s) =
     requests s @ [Request ''GET'' ''http://127.0.0.1:5000/api/ping'' None]"
  by (simp add: pingModel_def Let_def split: sum.splits)

lemma page_load_pings:
  "ping_requests (page_load rt ping_fetched logs_fetched s) =
     ping_requests s @ [Request ''GET'' ''http://127.0.0.1:5000/api/ping'' None]"
  by (simp add: ping_requests_def page_load_def load_recent_requests pingModel_requests)

lemma autoDetect_requests:
  "requests (autoDetect rt fetched src sourceType s) =
     requests s @ [Request ''POST'' ''http://127.0.0.1:5000/api/detect'' (Some (JsonImage src sourceType))]"
proof -
  have "autoDetect_try rt fetched s0 = Inr s1 \<Longrightarrow> requests s1 = requests s0" for s0 s1
    by (auto simp: autoDetect_try_def split: option.splits if_splits sum.splits
             dest!: appendRecent_legacy_requests)
  then show ?thesis
    by (auto simp: autoDetect_def Let_def split: sum.splits)
qed

lemma handle_pings: "ping_requests (handle rt s ev) = ping_requests s"
  by (cases ev)
     (auto simp: ping_requests_def startBtn_onclick_legacy_def snapBtn_onclick_legacy_def
                 uploadInput_onchange_legacy_def autoDetect_requests
           split: option.splits upload.splits)

lemma foldl_handle_pings: "ping_requests (foldl (handle rt) s events) = ping_requests s"
  by (induction events arbitrary: s) (simp_all add: handle_pings)

text \<open>Nothing but \<^verbatim>\<open>pingModel\<close> writes the model status.\<close>

lemma appendRecent_legacy_modelStatus:
  "appendRecent_legacy rt item s = Inr s' \<Longrightarrow> modelStatus s' = modelStatus s"
  by (auto simp: appendRecent_legacy_def split: if_splits sum.splits)

lemma forEach_appendRecent_modelStatus:
  "modelStatus (forEach_appendRecent rt rows s) = modelStatus s"
proof (induction rows arbitrary: s)
  case Nil
  then show ?case by simp
next
  case (Cons r rows)
  show ?case
  proof (cases "appendRecent_legacy rt r s")
    case (Inl e)
    then show ?thesis by simp
  next
    case (Inr s1)
    then show ?thesis using Cons.IH [of s1] appendRecent_legacy_modelStatus [OF Inr] by simp
  qed
qed

lemma load_recent_modelStatus: "modelStatus (load_recent rt fetched s) = modelStatus s"
  by (simp add: load_recent_def Let_def forEach_appendRecent_modelStatus
           split: option.splits jsval.splits)

lemma autoDetect_modelStatus:
  "modelStatus (autoDetect rt fetched src sourceType s) = modelStatus s"
proof -
  have "autoDetect_try rt fetched s0 = Inr s1 \<Longrightarrow> modelStatus s1 = modelStatus s0" for s0 s1
    by (auto simp: autoDetect_try_def split: option.splits if_splits sum.splits
             dest!: appendRecent_legacy_modelStatus)
  then show ?thesis
    by (auto simp: autoDetect_def Let_def split: sum.splits)
qed

lemma handle_modelStatus: "modelStatus (handle rt s ev) = modelStatus s"
  by (cases ev)
     (auto simp: startBtn_onclick_legacy_def snapBtn_onclick_legacy_def
                 uploadInput_onchange_legacy_def autoDetect_modelStatus
           split: option.splits upload.splits)

lemma foldl_handle_modelStatus: "modelStatus (foldl (handle rt) s events) = modelStatus s"
  by (induction events arbitrary: s) (simp_all add: handle_modelStatus)

text \<open>
  In every execution of the JSON client exactly one GET goes to the ping endpoint, on
  load, and what the page shows as model status, after the load and after any sequence
  of events, is what \<^verbatim>\<open>pingModel\<close> wrote.
\<close>

lemma execution_pings:
  "ping_requests (execution rt ping_fetched logs_fetched events s) =
     ping_requests s @ [Request ''GET'' ''http://127.0.0.1:5000/api/ping'' None]"
  by (simp add: execution_def foldl_handle_pings page_load_pings)

lemma execution_modelStatus:
  "modelStatus (execution rt ping_fetched logs_fetched events s) =
     modelStatus (pingModel rt ping_fetched s)"
  by (simp add: execution_def foldl_handle_modelStatus page_load_def load_recent_modelStatus)

text \<open>
  \<^verbatim>\<open>pingModel\<close> writes the fixed text exactly when something in its \<^verbatim>\<open>try\<close> throws:
  the \<^verbatim>\<open>fetch\<close> rejected, the body is not JSON, the body is \<^verbatim>\<open>null\<close>, or a field
  cannot be converted to text. The status of the response is not read.
\<close>

lemma pingModel_modelStatus:
  "modelStatus (pingModel rt ping_fetched s) =
     (case ping_fetched of
        None \<Rightarrow> ''backend unreachable''
      | Some r \<Rightarrow>
          (case body_json r of
             None \<Rightarrow> ''backend unreachable''
           | Some j \<Rightarrow>
               if nullish j \<or> \<not> convertible (js_or (field j ''model_name'') (Str ''none'')) \<or>
                  \<not> convertible (field j ''model_loaded'')
               then ''backend unreachable''
               else ToString rt (js_or (field j ''model_name'') (Str ''none'')) @ '' (loaded='' @
                    ToString rt (field j ''model_loaded'') @ '')''))"
  by (simp add: pingModel_def pingModel_try_def Let_def split: option.splits)

lemma pingModel_sample:
  "modelStatus (execution sample_runtime (Some sample_ping) None
      [StartClick None, SnapClick ''data:,'' None, UploadChange NoFile None] initial_page) =
     ''cnn (loaded=true)'' \<and>
   modelStatus (execution sample_runtime None None [] initial_page) = ''backend unreachable''"
  by (simp add: execution_modelStatus pingModel_modelStatus sample_ping_def response_200_def
        field_def nullish_def js_or_def)

text \<open>
  C9: the status prober shows the model name and the loaded flag on success and the
  fixed text \<^verbatim>\<open>backend unreachable\<close> on any failure. \<^verbatim>\<open>pingModel\<close> (\<^verbatim>\<open>common.js\<close>,
  lines 11 to 20) has no test of \<^verbatim>\<open>r.ok\<close>: when the backend answers the ping with
  status 500 and a JSON body, the page shows \<^verbatim>\<open>none (loaded=undefined)\<close> after the load
  instead of the fixed text.
\<close>

theorem pingModel_server_error:
  "modelStatus (page_load sample_runtime (Some ping_500) None initial_page) =
     ''none (loaded=undefined)''"
  by code_simp

section \<open>A rendered detection\<close>





section \<open>The confidence shown\<close>







text \<open>
  The products are the products of doubles: the double nearest to 0.015 times 100 is
  exactly 1.5, which \<^verbatim>\<open>Math.round\<close> takes to 2, and the double nearest to 0.0015
  times 100 lies below 0.15, which \<^verbatim>\<open>toFixed(1)\<close> writes as \<^verbatim>\<open>0.1\<close>.
\<close>

lemma double_products:
  "fl (15 / 1000) = Fin (1080863910568919 / 72057594037927936) \<and>
   Math_round (times100 (fl (15 / 1000))) = Fin 2 \<and>
   toFixed1 sample_runtime (times100 (fl (15 / 10000))) = ''0.1'' \<and>
   fl (873 / 1000) = Fin (3931642474694443 / 4503599627370496)"
  by code_simp




section \<open>The names of the fields\<close>

text \<open>
  \<^verbatim>\<open>app-fixed.js\<close> takes the prediction from \<^verbatim>\<open>prediction\<close> or else from \<^verbatim>\<open>label\<close>, and
  the time from \<^verbatim>\<open>processing_time_ms\<close> or else from \<^verbatim>\<open>processing_time\<close>; with neither
  it takes \<^verbatim>\<open>unknown\<close> and \<^verbatim>\<open>N/A\<close>. A field that an object does not have reads as
  \<^verbatim>\<open>undefined\<close>.
\<close>

lemma field_absent: "map_of kvs k = None \<Longrightarrow> field (Obj kvs) k = Undefined"
  by (simp add: field_def)

lemma label_fixed_cases:
  "truthy (field result ''prediction'') \<Longrightarrow> label_fixed result = field result ''prediction''"
  "\<not> truthy (field result ''prediction'') \<Longrightarrow> truthy (field result ''label'') \<Longrightarrow>
     label_fixed result = field result ''label''"
  "field result ''prediction'' = Undefined \<Longrightarrow> field result ''label'' = Undefined \<Longrightarrow>
     label_fixed result = Str ''unknown''"
  by (simp_all add: label_fixed_def js_or_def)

lemma timeMs_fixed_cases:
  "\<not> nullish (field result ''processing_time_ms'') \<Longrightarrow>
     timeMs_fixed result = field result ''processing_time_ms''"
  "nullish (field result ''processing_time_ms'') \<Longrightarrow> \<not> nullish (field result ''processing_time'') \<Longrightarrow>
     timeMs_fixed result = field result ''processing_time''"
  "field result ''processing_time_ms'' = Undefined \<Longrightarrow> field result ''processing_time'' = Undefined \<Longrightarrow>
     timeMs_fixed result = Str ''N/A''"
  by (simp_all add: timeMs_fixed_def js_coalesce_def nullish_def)

text \<open>
  On a body that uses the second name of each field \<^verbatim>\<open>app-fixed.js\<close> shows the
  prediction and the time.
\<close>

lemma alternative_keys_fixed:
  \<open>resultBox (sendToBackend_fixed sample_runtime
      (Some (response_200 ''{"label":"real","confidence":1,"processing_time":42}''
         alternative_keys))
      ''now'' ''image'' initial_page)
    = InnerHTML (result_html_fixed ''REAL'' ''100.0%'' ''42'')\<close>
  by code_simp

text \<open>
  C5: the client accepts either of two names for the prediction and for the processing
  time, with the defaults \<^verbatim>\<open>unknown\<close> and \<^verbatim>\<open>N/A\<close> when both are absent. \<^verbatim>\<open>app.js\<close>
  (\<^verbatim>\<open>unnamed/part_000\<close>, lines 79 to 81) reads \<^verbatim>\<open>prediction\<close> and
  \<^verbatim>\<open>processing_time_ms\<close> only: on a body that carries the prediction under \<^verbatim>\<open>label\<close>
  and the time under \<^verbatim>\<open>processing_time\<close> it shows the defaults \<^verbatim>\<open>UNKNOWN\<close> and
  \<^verbatim>\<open>N/A\<close>.
\<close>

theorem alternative_keys_ignored_app:
  \<open>resultBox (sendToBackend_app sample_runtime
      (Some (response_200 ''{"label":"real","confidence":1,"processing_time":42}''
         alternative_keys))
      ''image'' initial_page)
    = InnerHTML (result_html_app ''UNKNOWN'' ''100'' ''N/A'')\<close>
  by code_simp

section \<open>Escaping\<close>

text \<open>
  What \<^verbatim>\<open>escapeHtml\<close> returns holds none of the characters \<^verbatim>\<open><\<close>, \<^verbatim>\<open>>\<close>, \<^verbatim>\<open>"\<close>
  and \<^verbatim>\<open>'\<close>. \<^verbatim>\<open>app-fixed.js\<close> passes the label, the confidence, the time, the error
  texts and the timestamp through it, and sets the thumbnail through the \<^verbatim>\<open>src\<close>
  property.
\<close>

lemma escape_char_no_markup:
  \<open>set (escape_char m) \<inter> {CHR ''<'', CHR ''>'', CHR ''"'', CHR 0x27} = {}\<close>
  by (simp add: escape_char_def)

lemma escapeHtml_no_markup:
  \<open>set (escapeHtml s) \<inter> {CHR ''<'', CHR ''>'', CHR ''"'', CHR 0x27} = {}\<close>
proof (induction s)
  case Nil
  then show ?case by (simp add: escapeHtml_def)
next
  case (Cons m s)
  have "escapeHtml (m # s) = escape_char m @ escapeHtml s"
    by (simp add: escapeHtml_def)
  then show ?case
    using Cons escape_char_no_markup [of m] by (simp add: Int_Un_distrib2)
qed

text \<open>
  C4: every string interpolated into the document is escaped first. \<^verbatim>\<open>app.js\<close>
  (\<^verbatim>\<open>unnamed/part_000\<close>) escapes the body of a failed request only: the label goes into
  the result box and, with the preview source, into the recent list as it came. A
  prediction that holds an \<^verbatim>\<open>img\<close> tag reaches both \<^verbatim>\<open>innerHTML\<close> assignments
  unescaped.
\<close>

theorem unescaped_label_app:
  \<open>sendToBackend_app sample_runtime
      (Some (response_200 ''{"prediction":"<img src=x onerror=alert(1)>"}''
         (Obj [(''prediction'', Str ''<img src=x onerror=alert(1)>'')])))
      ''image'' (initial_page\<lparr>previewImg_src := ''blob:1''\<rparr>)
    = initial_page
        \<lparr>previewImg_src := ''blob:1'',
         requests := [Request ''POST'' DETECT_ENDPOINT_app (Some (FormImage ''image''))],
         resultBox := InnerHTML (result_html_app ''<IMG SRC=X ONERROR=ALERT(1)>'' ''0'' ''N/A''),
         recentList := [DivHtml (recent_html_app ''blob:1'' ''<IMG SRC=X ONERROR=ALERT(1)>'' ''0'')]\<rparr>\<close>
  by code_simp

section \<open>A body with an error field\<close>

text \<open>
  \<^verbatim>\<open>app-fixed.js\<close> tests \<^verbatim>\<open>result.error\<close>: it shows the message, escaped, and returns
  before the rendering and before \<^verbatim>\<open>appendRecent\<close>.
\<close>

lemma sendToBackend_fixed_error_field:
  assumes "ok resp" and "body_json resp = Some result" and "\<not> nullish result"
    and "truthy (field result ''error'')" and "convertible (field result ''error'')"
  shows "sendToBackend_fixed rt (Some resp) now blob s =
           s\<lparr>requests := requests s @ [Request ''POST'' DETECT_ENDPOINT_fixed (Some (FormImage blob))],
             resultBox := InnerHTML (error_field_html_fixed (ToString rt (field result ''error'')))\<rparr>"
  using assms by (simp add: sendToBackend_fixed_def sendToBackend_fixed_try_def)

text \<open>
  C6: a response with a successful status whose body has an error field shows that
  message and neither renders a result nor appends to the recent list. \<^verbatim>\<open>app.js\<close>
  (\<^verbatim>\<open>unnamed/part_000\<close>, lines 77 to 89) never reads \<^verbatim>\<open>result.error\<close>: it renders the
  defaults \<^verbatim>\<open>UNKNOWN\<close>, \<^verbatim>\<open>0%\<close> and \<^verbatim>\<open>N/A\<close> as if a detection had come back.
\<close>

theorem error_field_rendered_app:
  \<open>resultBox (sendToBackend_app sample_runtime
      (Some (response_200 ''{"error":"No face detected"}''
         (Obj [(''error'', Str ''No face detected'')])))
      ''image'' initial_page)
    = InnerHTML (result_html_app ''UNKNOWN'' ''0'' ''N/A'')\<close>
  by code_simp

section \<open>The recent list on a failed detection\<close>

text \<open>
  \<^verbatim>\<open>app-fixed.js\<close> leaves the list as it was on every failure: a rejected \<^verbatim>\<open>fetch\<close>, a
  status that is not a success, a body that is not JSON or is \<^verbatim>\<open>null\<close>, and a body
  with an error field. \<^verbatim>\<open>app.js\<close> does on all of these but the last; the JSON client,
  which reads neither the status nor an error field, does when the \<^verbatim>\<open>fetch\<close> rejects
  and when the body is not JSON or is \<^verbatim>\<open>null\<close>.
\<close>

lemma sendToBackend_fixed_failure_recentList:
  assumes "fetched = None \<or>
           (\<exists>resp. fetched = Some resp \<and>
              (\<not> ok resp \<or> body_json resp = None \<or>
               (\<exists>result. body_json resp = Some result \<and>
                  (nullish result \<or> truthy (field result ''error'')))))"
  shows "recentList (sendToBackend_fixed rt fetched now blob s) = recentList s"
  using assms
  by (auto simp: sendToBackend_fixed_def sendToBackend_fixed_try_def Let_def
           split: option.splits sum.splits if_splits)

lemma sendToBackend_app_failure_recentList:
  assumes "fetched = None \<or>
           (\<exists>resp. fetched = Some resp \<and>
              (\<not> ok resp \<or> body_json resp = None \<or> body_json resp = Some Null))"
  shows "recentList (sendToBackend_app rt fetched blob s) = recentList s"
  using assms
  by (auto simp: sendToBackend_app_def sendToBackend_app_try_def Let_def nullish_def
           split: option.splits sum.splits if_splits)

lemma autoDetect_failure_recentList:
  assumes "fetched = None \<or>
           (\<exists>resp. fetched = Some resp \<and>
              (body_json resp = None \<or> body_json resp = Some Null))"
  shows "recentList (autoDetect rt fetched src sourceType s) = recentList s"
  using assms
  by (auto simp: autoDetect_def autoDetect_try_def Let_def nullish_def
           split: option.splits sum.splits if_splits)

text \<open>
  C10: a detection that ends in a failure leaves the recent list unchanged. In \<^verbatim>\<open>app.js\<close>
  (\<^verbatim>\<open>unnamed/part_000\<close>, lines 61 to 95) a body with an error field is not treated as a
  failure, and an entry \<^verbatim>\<open>UNKNOWN\<close>, \<^verbatim>\<open>0%\<close> is put on the empty list.
\<close>

theorem error_field_appended_app:
  \<open>recentList (sendToBackend_app sample_runtime
      (Some (response_200 ''{"error":"No face detected"}''
         (Obj [(''error'', Str ''No face detected'')])))
      ''image'' (initial_page\<lparr>previewImg_src := ''blob:1''\<rparr>))
    = [DivHtml (recent_html_app ''blob:1'' ''UNKNOWN'' ''0'')]\<close>
  by code_simp

end

